theory Spec2Isabelle
  imports
    Complex_Main
    "HOL-Library.Word"
    "HOL-Library.Multiset"
    "HOL-Library.Char_ord"
    "HOL-Library.List_Lexorder"
    "HOL-Library.Product_Lexorder"
begin

section \<open>Adventure Works pipeline: bronze, silver and gold tables\<close>

text \<open>
  The pipeline is written against pandas data frames. A data frame is modelled as the list
  of its rows, a row as a record of its columns; only the columns that the code names are
  kept. Column types:
  \<^item> an \<open>int64\<close> column on which the code does arithmetic (\<open>OrderQuantity\<close>, summed by the
    gold stage) is a \<open>64 word\<close>, read signed; \<open>int64\<close> key columns, which are only compared,
    are \<open>int\<close>;
  \<^item> a \<open>float64\<close> column is \<open>rat option\<close>: \<open>None\<close> is NaN, which is also how pandas stores
    a null in such a column. Arithmetic on the numbers is exact, so rounding and overflow
    to infinity are outside this model;
  \<^item> a \<open>datetime64\<close> column is \<open>int option\<close>: the time stamp, \<open>None\<close> for NaT;
  \<^item> a text column is \<open>string option\<close>, or \<open>string\<close> once the silver stage has filled it.
\<close>

type_synonym i64 = "64 word"
type_synonym f64 = "rat option"
type_synonym timestamp = int

text \<open>
  A field of a CSV file as \<open>pd.read_csv\<close> hands it over: empty, an integer, a decimal
  number, or any other text. Integer fields are taken to lie in the \<open>int64\<close> range.
\<close>

datatype cell = Missing | IntLit int | FloatLit rat | Text string

text \<open>
  A date field: empty, a text that \<open>pd.to_datetime\<close> parses to the given time stamp, or a
  text that it rejects.
\<close>

datatype date_field = NoDate | DateText timestamp | BadDate string

text \<open>The exceptions that the modelled code can raise, and \<open>TypeError\<close>, which it cannot.\<close>

datatype error = FileNotFoundError | ValueError | TypeError

subsection \<open>Bronze files\<close>

text \<open>
  The rows of the CSV files. The columns that the silver stage converts with
  \<open>astype(int)\<close> or \<open>pd.to_datetime\<close> are kept as the fields that were read; the price
  column is taken to be numeric.
\<close>

record sales_csv_row =
  OrderDate :: date_field
  StockDate :: date_field
  OrderNumber :: cell
  ProductKey :: cell
  CustomerKey :: cell
  TerritoryKey :: cell
  OrderLineItem :: cell
  OrderQuantity :: cell

record products_csv_row =
  ProductKey :: cell
  ProductName :: "string option"
  ModelName :: "string option"
  ProductSubcategoryKey :: cell
  ProductPrice :: f64

record customers_csv_row =
  CustomerKey :: cell
  FirstName :: "string option"
  LastName :: "string option"
  Gender :: "string option"
  MaritalStatus :: "string option"

text \<open>
  The data directory: the sales files that exist, each listed by name with its rows
  (\<open>os.path.exists\<close> and \<open>pd.read_csv\<close> look a name up), and the product and customer
  files, each present with its rows or absent.
\<close>

record bronze_dir =
  Sales_csv :: "(string \<times> sales_csv_row list) list"
  Products_csv :: "products_csv_row list option"
  Customers_csv :: "customers_csv_row list option"

subsection \<open>Silver tables\<close>

text \<open>
  The sales frame after its columns have been converted, and the silver sales table, which
  adds the price and the derived amounts.
\<close>

record sales_base =
  OrderDate :: "timestamp option"
  StockDate :: "timestamp option"
  OrderNumber :: cell
  ProductKey :: int
  CustomerKey :: int
  TerritoryKey :: cell
  OrderLineItem :: cell
  OrderQuantity :: i64

record sales_row = sales_base +
  UnitPrice :: f64
  SalesAmount :: f64
  TotalProductCost :: f64
  Profit :: f64
  ProfitMargin :: f64

record product_row =
  ProductKey :: int
  ProductName :: string
  ModelName :: string
  ProductSubcategoryKey :: cell
  ProductPrice :: f64

record customer_row =
  CustomerKey :: int
  FirstName :: "string option"
  LastName :: "string option"
  Gender :: string
  MaritalStatus :: string

text \<open>Of the calendar table the gold stage reads \<open>Date\<close>, \<open>Year\<close> and \<open>Month\<close> only.\<close>

record calendar_row =
  Date :: "timestamp option"
  Year :: "int option"
  Month :: "int option"

text \<open>The silver directory: each Parquet file is present with its table, or absent.\<close>

record silver_dir =
  Sales_parquet :: "sales_row list option"
  Products_parquet :: "product_row list option"
  Customers_parquet :: "customer_row list option"
  Calendar_parquet :: "calendar_row list option"

subsection \<open>Gold views\<close>

text \<open>
  A grouped sum of a \<open>float64\<close> column skips NaN and is 0 on a group without numbers, so
  \<open>TotalSales\<close>, \<open>TotalSpend\<close> and \<open>MonthlySales\<close> are never NaN; a grouped mean is NaN on
  such a group.
\<close>

record sales_summary_row =
  ProductKey :: int
  ProductName :: string
  ModelName :: string
  TotalQuantity :: i64
  TotalSales :: rat
  AvgUnitPrice :: f64
  OrderCount :: nat

record customer_insights_row =
  CustomerKey :: int
  FirstName :: string
  LastName :: string
  Gender :: string
  MaritalStatus :: string
  TotalSpend :: rat
  OrderCount :: nat
  AvgOrderValue :: f64

record monthly_sales_row =
  Year :: int
  Month :: int
  MonthlySales :: rat
  OrderCount :: nat
  AvgOrderValue :: f64


subsection \<open>Data frame operations\<close>

text \<open>
  \<open>left.merge(right, on=key)\<close>, an inner join: every pair of a left and a right row with
  equal keys, in the order of the left rows. Rows without a partner are dropped.
\<close>

definition merge_inner ::
  "('a \<Rightarrow> 'k) \<Rightarrow> ('b \<Rightarrow> 'k) \<Rightarrow> 'a list \<Rightarrow> 'b list \<Rightarrow> ('a \<times> 'b) list" where
  "merge_inner left_on right_on left right =
     concat (map (\<lambda>l. map (Pair l) (filter (\<lambda>r. right_on r = left_on l) right)) left)"

text \<open>
  \<open>df.groupby(by)\<close> with its defaults \<open>sort=True\<close> and \<open>dropna=True\<close>: the distinct keys
  in ascending order, each with its rows in their original order. \<open>by r = None\<close> says that
  a key column of \<open>r\<close> is null; such rows belong to no group.
\<close>

definition groupby :: "('r \<Rightarrow> 'k::linorder option) \<Rightarrow> 'r list \<Rightarrow> ('k \<times> 'r list) list" where
  "groupby by rows =
     map (\<lambda>k. (k, filter (\<lambda>r. by r = Some k) rows)) (sort (remdups (List.map_filter by rows)))"

text \<open>The aggregations \<open>'sum'\<close> and \<open>'mean'\<close> on a \<open>float64\<close> column: NaN is skipped.\<close>

definition nansum :: "f64 list \<Rightarrow> rat" where
  "nansum xs = sum_list (List.map_filter id xs)"

definition nanmean :: "f64 list \<Rightarrow> f64" where
  "nanmean xs =
     (let vs = List.map_filter id xs
      in if vs = [] then None else Some (sum_list vs / of_nat (length vs)))"

text \<open>
  \<open>sort_values(column, ascending=False)\<close> on one column sorts with the library's default
  algorithm (\<open>kind='quicksort'\<close>), which is not code of this repository: it enters the
  model as a parameter \<open>srt\<close>, of which only this contract is used: the result is a
  permutation of the rows with the column non-increasing.
\<close>

definition sorts_descending :: "('r \<Rightarrow> rat) \<Rightarrow> ('r list \<Rightarrow> 'r list) \<Rightarrow> bool" where
  "sorts_descending col srt \<longleftrightarrow>
     (\<forall>rows. mset (srt rows) = mset rows \<and> sorted_wrt (\<lambda>a b. col b \<le> col a) (srt rows))"

text \<open>One function that meets the contract: insertion sort on the reversed list.\<close>

definition sort_descending :: "('r \<Rightarrow> rat) \<Rightarrow> 'r list \<Rightarrow> 'r list" where
  "sort_descending col rows = rev (sort_key col (rev rows))"

section \<open>Bronze to silver\<close>

text \<open>
  The conversions work on whole columns and raise on the first field that they cannot
  convert. Every such failure is a \<open>ValueError\<close> (for a null under \<open>astype(int)\<close> it is
  the subclass \<open>IntCastingNaNError\<close>), so the model converts row by row: which column
  fails first does not show in the result.
\<close>

definition then_do :: "'e + 'a \<Rightarrow> ('a \<Rightarrow> 'e + 'b) \<Rightarrow> 'e + 'b" where
  "then_do m f = (case m of Inl e \<Rightarrow> Inl e | Inr v \<Rightarrow> f v)"

fun sequence :: "('e + 'a) list \<Rightarrow> 'e + 'a list" where
  "sequence [] = Inr []"
| "sequence (m # ms) = then_do m (\<lambda>v. then_do (sequence ms) (\<lambda>vs. Inr (v # vs)))"

text \<open>\<open>astype(int)\<close>: a decimal number is truncated towards zero.\<close>

fun astype_int :: "cell \<Rightarrow> error + int" where
  "astype_int (IntLit i) = Inr i"
| "astype_int (FloatLit x) = Inr (if 0 \<le> x then \<lfloor>x\<rfloor> else \<lceil>x\<rceil>)"
| "astype_int Missing = Inl ValueError"
| "astype_int (Text t) = Inl ValueError"

text \<open>The fields that hold a number: those that \<open>astype(int)\<close> converts.\<close>

fun is_numeric :: "cell \<Rightarrow> bool" where
  "is_numeric (IntLit i) = True"
| "is_numeric (FloatLit x) = True"
| "is_numeric c = False"

fun to_datetime :: "date_field \<Rightarrow> error + timestamp option" where
  "to_datetime NoDate = Inr None"
| "to_datetime (DateText t) = Inr (Some t)"
| "to_datetime (BadDate t) = Inl ValueError"

definition fillna :: "'a \<Rightarrow> 'a option \<Rightarrow> 'a" where
  "fillna d x = (case x of None \<Rightarrow> d | Some v \<Rightarrow> v)"

subsection \<open>\<open>process_customer_data\<close>\<close>



subsection \<open>\<open>process_product_data\<close>\<close>

definition clean_product :: "products_csv_row \<Rightarrow> error + product_row" where
  "clean_product r =
     then_do (astype_int (products_csv_row.ProductKey r)) (\<lambda>pk.
       Inr \<lparr>product_row.ProductKey = pk,
            product_row.ProductName = fillna ''Unknown Product'' (products_csv_row.ProductName r),
            product_row.ModelName = fillna ''Unknown Model'' (products_csv_row.ModelName r),
            product_row.ProductSubcategoryKey =
              (case products_csv_row.ProductSubcategoryKey r of
                 Missing \<Rightarrow> IntLit (- 1) | c \<Rightarrow> c),
            product_row.ProductPrice = products_csv_row.ProductPrice r\<rparr>)"

definition process_product_data :: "bronze_dir \<Rightarrow> error + product_row list" where
  "process_product_data data_dir =
     (case Products_csv data_dir of
        None \<Rightarrow> Inl FileNotFoundError
      | Some product_df \<Rightarrow> sequence (map clean_product product_df))"

subsection \<open>\<open>process_sales_data\<close>\<close>

definition sales_files :: "string list" where
  "sales_files =
     [''AdventureWorks_Sales_2015.csv'', ''AdventureWorks_Sales_2016.csv'',
      ''AdventureWorks_Sales_2017.csv'']"

definition clean_sale :: "sales_csv_row \<Rightarrow> error + sales_base" where
  "clean_sale r =
     then_do (to_datetime (sales_csv_row.OrderDate r)) (\<lambda>order_date.
     then_do (to_datetime (sales_csv_row.StockDate r)) (\<lambda>stock_date.
     then_do (astype_int (sales_csv_row.OrderQuantity r)) (\<lambda>qty.
     then_do (astype_int (sales_csv_row.CustomerKey r)) (\<lambda>ck.
     then_do (astype_int (sales_csv_row.ProductKey r)) (\<lambda>pk.
       Inr \<lparr>sales_base.OrderDate = order_date, sales_base.StockDate = stock_date,
            sales_base.OrderNumber = sales_csv_row.OrderNumber r,
            sales_base.ProductKey = pk, sales_base.CustomerKey = ck,
            sales_base.TerritoryKey = sales_csv_row.TerritoryKey r,
            sales_base.OrderLineItem = sales_csv_row.OrderLineItem r,
            sales_base.OrderQuantity = of_int qty\<rparr>)))))"

text \<open>
  \<open>sales_df.merge(product_df[['ProductKey', 'ProductPrice']], on='ProductKey', how='left')\<close>:
  every left row with each of its partners, or once with nulls when it has none. The
  product file is merged as it was read, so its key column is still made of fields: a
  number matches the sale's key by value, an empty field matches nothing, and a key column
  that holds text makes the merge of an integer with a text column raise \<open>ValueError\<close>.
\<close>

definition merge_left :: "('a \<Rightarrow> 'b \<Rightarrow> bool) \<Rightarrow> 'a list \<Rightarrow> 'b list \<Rightarrow> ('a \<times> 'b option) list" where
  "merge_left matches left right =
     concat (map (\<lambda>l. case filter (matches l) right of
                        [] \<Rightarrow> [(l, None)]
                      | ms \<Rightarrow> map (\<lambda>r. (l, Some r)) ms) left)"

fun key_matches :: "int \<Rightarrow> cell \<Rightarrow> bool" where
  "key_matches k (IntLit i) = (i = k)"
| "key_matches k (FloatLit x) = (x = of_int k)"
| "key_matches k Missing = False"
| "key_matches k (Text t) = False"

fun is_text :: "cell \<Rightarrow> bool" where
  "is_text (Text t) = True"
| "is_text c = False"

text \<open>
  Arithmetic on \<open>float64\<close> columns: NaN in, NaN out. A quotient with divisor 0 is NaN when
  the dividend is 0 too, and infinite otherwise; this model has no infinite value, and
  the silver stage only divides \<open>Profit\<close> by \<open>SalesAmount\<close>, where the dividend is 0
  whenever the divisor is (lemma \<open>profit_zero\<close> below).
\<close>

definition fmul_int :: "i64 \<Rightarrow> f64 \<Rightarrow> f64" where
  "fmul_int n x = map_option (\<lambda>v. of_int (sint n) * v) x"

definition fmul :: "f64 \<Rightarrow> rat \<Rightarrow> f64" where
  "fmul x c = map_option (\<lambda>v. v * c) x"

definition fsub :: "f64 \<Rightarrow> f64 \<Rightarrow> f64" where
  "fsub x y = (case (x, y) of (Some a, Some b) \<Rightarrow> Some (a - b) | _ \<Rightarrow> None)"

definition fdiv :: "f64 \<Rightarrow> f64 \<Rightarrow> f64" where
  "fdiv x y = (case (x, y) of (Some a, Some b) \<Rightarrow> if b = 0 then None else Some (a / b) | _ \<Rightarrow> None)"

definition add_metrics :: "sales_base \<times> products_csv_row option \<Rightarrow> sales_row" where
  "add_metrics m =
     (let unit_price = (case snd m of None \<Rightarrow> None | Some p \<Rightarrow> products_csv_row.ProductPrice p);
          sales_amount = fmul_int (sales_base.OrderQuantity (fst m)) unit_price;
          total_product_cost = fmul sales_amount (7 / 10);
          profit = fsub sales_amount total_product_cost;
          profit_margin = fdiv profit sales_amount
      in sales_base.extend (fst m)
           (sales_row.fields unit_price sales_amount total_product_cost profit profit_margin))"

text \<open>
  The result is \<open>Inl\<close> an exception, \<open>Inr None\<close> when the function prints
  \<open>No sales data found\<close> and returns \<open>None\<close>, or \<open>Inr (Some final_df)\<close>, the table that
  it has written to the silver directory.
\<close>

definition process_sales_data :: "bronze_dir \<Rightarrow> error + sales_row list option" where
  "process_sales_data data_dir =
     (let all_sales_dfs = List.map_filter (map_of (Sales_csv data_dir)) sales_files
      in if all_sales_dfs \<noteq> [] then
           then_do (sequence (map clean_sale (concat all_sales_dfs))) (\<lambda>sales_df.
             case Products_csv data_dir of
               None \<Rightarrow> Inl FileNotFoundError
             | Some product_df \<Rightarrow>
                 if \<exists>p \<in> set product_df. is_text (products_csv_row.ProductKey p)
                 then Inl ValueError
                 else
                   let merged_df =
                         merge_left (\<lambda>s p. key_matches (sales_base.ProductKey s)
                                              (products_csv_row.ProductKey p))
                           sales_df product_df
                   in Inr (Some (map add_metrics merged_df)))
         else Inr None)"

section \<open>Silver to gold\<close>

subsection \<open>\<open>create_sales_summary\<close>\<close>

definition summary_by :: "sales_row \<times> product_row \<Rightarrow> (int \<times> string \<times> string) option" where
  "summary_by j = Some (product_row.ProductKey (snd j), product_row.ProductName (snd j), product_row.ModelName (snd j))"

definition summary_agg :: "(int \<times> string \<times> string) \<times> (sales_row \<times> product_row) list \<Rightarrow> sales_summary_row" where
  "summary_agg kg =
     (case kg of ((pk, pn, mn), g) \<Rightarrow>
        \<lparr>sales_summary_row.ProductKey = pk, sales_summary_row.ProductName = pn,
         sales_summary_row.ModelName = mn,
         TotalQuantity = sum_list (map (\<lambda>j. sales_base.OrderQuantity (fst j)) g),
         TotalSales = nansum (map (\<lambda>j. SalesAmount (fst j)) g),
         AvgUnitPrice = nanmean (map (\<lambda>j. UnitPrice (fst j)) g),
         sales_summary_row.OrderCount = length g\<rparr>)"

definition create_sales_summary ::
  "(sales_summary_row list \<Rightarrow> sales_summary_row list) \<Rightarrow> silver_dir \<Rightarrow> error + sales_summary_row list" where
  "create_sales_summary srt silver =
     (case Sales_parquet silver of None \<Rightarrow> Inl FileNotFoundError | Some sales_df \<Rightarrow>
      case Products_parquet silver of None \<Rightarrow> Inl FileNotFoundError | Some products_df \<Rightarrow>
        let joined_df = merge_inner sales_base.ProductKey product_row.ProductKey sales_df products_df
        in Inr (srt (map summary_agg (groupby summary_by joined_df))))"

subsection \<open>\<open>create_customer_insights\<close>\<close>

text \<open>
  The silver stage fills \<open>Gender\<close> and \<open>MaritalStatus\<close> but not the names, so a customer
  without a first or last name has a null group key.
\<close>

definition insights_by ::
  "sales_row \<times> customer_row \<Rightarrow> (int \<times> string \<times> string \<times> string \<times> string) option" where
  "insights_by j =
     (case (customer_row.FirstName (snd j), customer_row.LastName (snd j)) of
        (Some first_name, Some last_name) \<Rightarrow>
          Some (customer_row.CustomerKey (snd j), first_name, last_name,
                customer_row.Gender (snd j), customer_row.MaritalStatus (snd j))
      | _ \<Rightarrow> None)"

definition insights_agg ::
  "(int \<times> string \<times> string \<times> string \<times> string) \<times> (sales_row \<times> customer_row) list
     \<Rightarrow> customer_insights_row" where
  "insights_agg kg =
     (case kg of ((ck, first_name, last_name, gd, ms), g) \<Rightarrow>
        \<lparr>customer_insights_row.CustomerKey = ck, customer_insights_row.FirstName = first_name,
         customer_insights_row.LastName = last_name, customer_insights_row.Gender = gd,
         customer_insights_row.MaritalStatus = ms,
         TotalSpend = nansum (map (\<lambda>j. SalesAmount (fst j)) g),
         customer_insights_row.OrderCount = length g,
         customer_insights_row.AvgOrderValue = nanmean (map (\<lambda>j. SalesAmount (fst j)) g)\<rparr>)"

definition create_customer_insights ::
  "(customer_insights_row list \<Rightarrow> customer_insights_row list) \<Rightarrow> silver_dir
     \<Rightarrow> error + customer_insights_row list" where
  "create_customer_insights srt silver =
     (case Customers_parquet silver of None \<Rightarrow> Inl FileNotFoundError | Some customers_df \<Rightarrow>
      case Sales_parquet silver of None \<Rightarrow> Inl FileNotFoundError | Some sales_df \<Rightarrow>
        let joined_df = merge_inner sales_base.CustomerKey customer_row.CustomerKey sales_df customers_df
        in Inr (srt (map insights_agg (groupby insights_by joined_df))))"

subsection \<open>\<open>create_time_series_analysis\<close>\<close>

text \<open>
  The join is on \<open>OrderDate = Date\<close>; pandas pairs a null key with a null key, as the
  equality on \<open>option\<close> does. \<open>sort_values(['Year', 'Month'])\<close> on two columns is the
  library's stable lexicographic sort.
\<close>

definition monthly_by :: "sales_row \<times> calendar_row \<Rightarrow> (int \<times> int) option" where
  "monthly_by j =
     (case (calendar_row.Year (snd j), calendar_row.Month (snd j)) of
        (Some y, Some m) \<Rightarrow> Some (y, m)
      | _ \<Rightarrow> None)"

definition monthly_agg :: "(int \<times> int) \<times> (sales_row \<times> calendar_row) list \<Rightarrow> monthly_sales_row" where
  "monthly_agg kg =
     (case kg of ((y, m), g) \<Rightarrow>
        \<lparr>Year = y, Month = m,
         MonthlySales = nansum (map (\<lambda>j. SalesAmount (fst j)) g),
         OrderCount = length g,
         AvgOrderValue = nanmean (map (\<lambda>j. SalesAmount (fst j)) g)\<rparr>)"

definition create_time_series_analysis :: "silver_dir \<Rightarrow> error + monthly_sales_row list" where
  "create_time_series_analysis silver =
     (case Sales_parquet silver of None \<Rightarrow> Inl FileNotFoundError | Some sales_df \<Rightarrow>
      case Calendar_parquet silver of None \<Rightarrow> Inl FileNotFoundError | Some calendar_df \<Rightarrow>
        let joined_df = merge_inner sales_base.OrderDate calendar_row.Date sales_df calendar_df
        in Inr (sort_key (\<lambda>v. (monthly_sales_row.Year v, monthly_sales_row.Month v))
                  (map monthly_agg (groupby monthly_by joined_df))))"

section \<open>Visualisation: \<open>create_customer_segments\<close>\<close>






section \<open>Sample data\<close>

text \<open>Small tables on which the theorems below are instantiated.\<close>

definition sample_sale_csv :: "cell \<Rightarrow> cell \<Rightarrow> cell \<Rightarrow> date_field \<Rightarrow> sales_csv_row" where
  "sample_sale_csv pk ck qty order_date =
     \<lparr>sales_csv_row.OrderDate = order_date, sales_csv_row.StockDate = NoDate,
      sales_csv_row.OrderNumber = Text ''SO1'', sales_csv_row.ProductKey = pk,
      sales_csv_row.CustomerKey = ck, sales_csv_row.TerritoryKey = IntLit 4,
      sales_csv_row.OrderLineItem = IntLit 1, sales_csv_row.OrderQuantity = qty\<rparr>"

definition sample_product_csv :: "cell \<Rightarrow> f64 \<Rightarrow> products_csv_row" where
  "sample_product_csv pk price =
     \<lparr>products_csv_row.ProductKey = pk, products_csv_row.ProductName = Some ''Bike'',
      products_csv_row.ModelName = None, products_csv_row.ProductSubcategoryKey = Missing,
      products_csv_row.ProductPrice = price\<rparr>"

definition sample_bronze :: bronze_dir where
  "sample_bronze =
     \<lparr>Sales_csv =
        [(''AdventureWorks_Sales_2016.csv'',
          [sample_sale_csv (IntLit 1) (IntLit 7) (IntLit 2) (DateText 100),
           sample_sale_csv (IntLit 1) (IntLit 7) (IntLit 3) (DateText 100)])],
      Products_csv = Some [sample_product_csv (IntLit 1) (Some 10)],
      Customers_csv = None\<rparr>"

definition sample_sale :: "int \<Rightarrow> int \<Rightarrow> i64 \<Rightarrow> timestamp option \<Rightarrow> f64 \<Rightarrow> f64 \<Rightarrow> f64 \<Rightarrow> f64 \<Rightarrow> f64 \<Rightarrow> sales_row" where
  "sample_sale pk ck qty order_date price amount cost profit margin =
     \<lparr>sales_base.OrderDate = order_date, sales_base.StockDate = None,
      sales_base.OrderNumber = Text ''SO1'', sales_base.ProductKey = pk,
      sales_base.CustomerKey = ck, sales_base.TerritoryKey = IntLit 4,
      sales_base.OrderLineItem = IntLit 1, sales_base.OrderQuantity = qty,
      UnitPrice = price, SalesAmount = amount, TotalProductCost = cost, Profit = profit,
      ProfitMargin = margin\<rparr>"

definition sample_product :: "int \<Rightarrow> f64 \<Rightarrow> product_row" where
  "sample_product pk price =
     \<lparr>product_row.ProductKey = pk, product_row.ProductName = ''Bike'',
      product_row.ModelName = ''Unknown Model'',
      product_row.ProductSubcategoryKey = IntLit (- 1), product_row.ProductPrice = price\<rparr>"

definition sample_sales :: "sales_row list" where
  "sample_sales =
     [sample_sale 1 7 2 (Some 100) (Some 10) (Some 20) (Some 14) (Some 6) (Some (3 / 10)),
      sample_sale 1 7 3 (Some 100) (Some 10) (Some 30) (Some 21) (Some 9) (Some (3 / 10))]"

definition sample_silver :: silver_dir where
  "sample_silver =
     \<lparr>Sales_parquet = Some sample_sales, Products_parquet = Some [sample_product 1 (Some 10)],
      Customers_parquet = None, Calendar_parquet = None\<rparr>"


definition sample_customer :: "int \<Rightarrow> string option \<Rightarrow> string \<Rightarrow> customer_row" where
  "sample_customer ck first_name gender =
     \<lparr>customer_row.CustomerKey = ck, customer_row.FirstName = first_name,
      customer_row.LastName = Some ''Lee'', customer_row.Gender = gender,
      customer_row.MaritalStatus = ''M''\<rparr>"

definition sample_sales_nulls :: "sales_row list" where
  "sample_sales_nulls =
     sample_sales @
     [sample_sale 9 7 1 (Some 200) None None None None None,
      sample_sale 1 8 0 (Some 200) (Some 10) (Some 0) (Some 0) (Some 0) None,
      sample_sale 9 8 1 (Some 300) None None None None None]"

definition sample_calendar :: "calendar_row list" where
  "sample_calendar =
     [\<lparr>Date = Some 100, Year = Some 2016, Month = Some 1\<rparr>,
      \<lparr>Date = Some 200, Year = Some 2016, Month = Some 2\<rparr>]"

definition sample_customers :: "customer_row list" where
  "sample_customers =
     [sample_customer 7 (Some ''Ann'') ''F'', sample_customer 8 (Some ''Bob'') ''Unknown'']"

definition sample_insights_7 :: customer_insights_row where
  "sample_insights_7 =
     \<lparr>customer_insights_row.CustomerKey = 7, customer_insights_row.FirstName = ''Ann'',
      customer_insights_row.LastName = ''Lee'', customer_insights_row.Gender = ''F'',
      customer_insights_row.MaritalStatus = ''M'', TotalSpend = 50,
      customer_insights_row.OrderCount = 3, customer_insights_row.AvgOrderValue = Some 25\<rparr>"

definition sample_insights_8 :: customer_insights_row where
  "sample_insights_8 =
     \<lparr>customer_insights_row.CustomerKey = 8, customer_insights_row.FirstName = ''Bob'',
      customer_insights_row.LastName = ''Lee'', customer_insights_row.Gender = ''Unknown'',
      customer_insights_row.MaritalStatus = ''M'', TotalSpend = 0,
      customer_insights_row.OrderCount = 2, customer_insights_row.AvgOrderValue = Some 0\<rparr>"

definition sample_silver_nulls :: silver_dir where
  "sample_silver_nulls =
     \<lparr>Sales_parquet = Some sample_sales_nulls,
      Products_parquet = Some [sample_product 1 (Some 10)],
      Customers_parquet = Some sample_customers,
      Calendar_parquet = Some sample_calendar\<rparr>"





definition sample_bronze_unmatched :: bronze_dir where
  "sample_bronze_unmatched =
     \<lparr>Sales_csv =
        [(''AdventureWorks_Sales_2015.csv'',
          [sample_sale_csv (IntLit 1) (IntLit 7) (IntLit 2) (DateText 100)]),
         (''AdventureWorks_Sales_2017.csv'',
          [sample_sale_csv (IntLit 9) (IntLit 7) (IntLit 1) (DateText 200),
           sample_sale_csv (FloatLit 1) (IntLit 7) (IntLit 0) (DateText 200)])],
      Products_csv = Some [sample_product_csv (IntLit 1) (Some 10)],
      Customers_csv = None\<rparr>"

definition sample_sales_unmatched :: "sales_row list" where
  "sample_sales_unmatched =
     [sample_sale 1 7 2 (Some 100) (Some 10) (Some 20) (Some 14) (Some 6) (Some (3 / 10)),
      sample_sale 9 7 1 (Some 200) None None None None None,
      sample_sale 1 7 0 (Some 200) (Some 10) (Some 0) (Some 0) (Some 0) None]"

definition sample_bronze_no_sales :: bronze_dir where
  "sample_bronze_no_sales =
     \<lparr>Sales_csv =
        [(''AdventureWorks_Sales_2018.csv'',
          [sample_sale_csv (IntLit 1) (IntLit 7) (IntLit 2) (DateText 100)])],
      Products_csv = Some [sample_product_csv (IntLit 1) (Some 10)],
      Customers_csv = None\<rparr>"





section \<open>Properties\<close>

text \<open>The group key of a row of the sales summary, and of a product.\<close>

abbreviation summary_key :: "sales_summary_row \<Rightarrow> int \<times> string \<times> string" where
  "summary_key v \<equiv>
     (sales_summary_row.ProductKey v, sales_summary_row.ProductName v, sales_summary_row.ModelName v)"

abbreviation product_key :: "product_row \<Rightarrow> int \<times> string \<times> string" where
  "product_key p \<equiv> (product_row.ProductKey p, product_row.ProductName p, product_row.ModelName p)"

text \<open>The group keys of the rows of the other two views.\<close>

abbreviation year_month :: "monthly_sales_row \<Rightarrow> int \<times> int" where
  "year_month v \<equiv> (monthly_sales_row.Year v, monthly_sales_row.Month v)"

abbreviation insights_key :: "customer_insights_row \<Rightarrow> int \<times> string \<times> string \<times> string \<times> string" where
  "insights_key v \<equiv>
     (customer_insights_row.CustomerKey v, customer_insights_row.FirstName v,
      customer_insights_row.LastName v, customer_insights_row.Gender v,
      customer_insights_row.MaritalStatus v)"

text \<open>
  The sales files that exist, in the order in which the loader reads them, and the
  condition of the left join of the silver stage.
\<close>

abbreviation present_sales :: "bronze_dir \<Rightarrow> sales_csv_row list list" where
  "present_sales data_dir \<equiv> List.map_filter (map_of (Sales_csv data_dir)) sales_files"

abbreviation sale_matches :: "sales_base \<Rightarrow> products_csv_row \<Rightarrow> bool" where
  "sale_matches s p \<equiv> key_matches (sales_base.ProductKey s) (products_csv_row.ProductKey p)"



subsection \<open>Grouping, joining and sorting\<close>

lemma groupby_keys: "map fst (groupby by rows) = sort (remdups (List.map_filter by rows))"
  by (simp add: groupby_def comp_def)

lemma map_filter_set: "set (List.map_filter f xs) = {y. \<exists>x \<in> set xs. f x = Some y}"
  by (induction xs) (auto simp: List.map_filter_simps split: option.splits)

lemma groupby_key_set: "set (map fst (groupby by rows)) = {k. \<exists>r \<in> set rows. by r = Some k}"
  by (simp add: groupby_keys map_filter_set)

lemma groupby_distinct: "distinct (map fst (groupby by rows))"
  by (simp add: groupby_keys)

lemma groupby_strict_sorted: "sorted_wrt (<) (map fst (groupby by rows))"
  using groupby_distinct [of "by" rows] 
  by (simp add: groupby_keys strict_sorted_iff)

lemma groupby_member:
  "kg \<in> set (groupby by rows) \<longleftrightarrow>
     (\<exists>r \<in> set rows. by r = Some (fst kg)) \<and> snd kg = filter (\<lambda>r. by r = Some (fst kg)) rows"
  by (cases kg) (auto simp: groupby_def map_filter_set)

lemma merge_inner_set:
  "set (merge_inner left_on right_on left right) =
     {(l, r). l \<in> set left \<and> r \<in> set right \<and> right_on r = left_on l}"
  by (auto simp: merge_inner_def)

lemma sum_list_filter_split:
  fixes f :: "'r \<Rightarrow> 'a::comm_monoid_add"
  assumes "\<And>x. x \<in> set xs \<Longrightarrow> \<not> (P x \<and> Q x)"
  shows "sum_list (map f (filter (\<lambda>x. P x \<or> Q x) xs)) =
         sum_list (map f (filter P xs)) + sum_list (map f (filter Q xs))"
  using assms by (induction xs) (auto simp: ac_simps)

lemma sum_list_groups:
  fixes f :: "'r \<Rightarrow> 'a::comm_monoid_add"
  assumes "distinct ks"
  shows "sum_list (map (\<lambda>k. sum_list (map f (filter (\<lambda>r. by r = Some k) rows))) ks) =
         sum_list (map f (filter (\<lambda>r. \<exists>k \<in> set ks. by r = Some k) rows))"
  using assms
proof (induction ks)
  case Nil
  then show ?case by simp
next
  case (Cons k ks)
  have disj: "\<And>x. x \<in> set rows \<Longrightarrow> \<not> (by x = Some k \<and> (\<exists>k' \<in> set ks. by x = Some k'))"
    using Cons.prems by auto
  have "sum_list (map f (filter (\<lambda>r. \<exists>k' \<in> set (k # ks). by r = Some k') rows)) =
        sum_list (map f (filter (\<lambda>r. by r = Some k \<or> (\<exists>k' \<in> set ks. by r = Some k')) rows))"
    by simp
  also have "\<dots> = sum_list (map f (filter (\<lambda>r. by r = Some k) rows)) +
                   sum_list (map f (filter (\<lambda>r. \<exists>k' \<in> set ks. by r = Some k') rows))"
    by (rule sum_list_filter_split) (use disj in blast)
  finally show ?case using Cons by simp
qed

lemma groupby_sum:
  fixes f :: "'r \<Rightarrow> 'a::comm_monoid_add"
  shows "sum_list (map (\<lambda>kg. sum_list (map f (snd kg))) (groupby by rows)) =
         sum_list (map f (filter (\<lambda>r. by r \<noteq> None) rows))"
proof -
  let ?ks = "sort (remdups (List.map_filter by rows))"
  have "sum_list (map (\<lambda>kg. sum_list (map f (snd kg))) (groupby by rows)) =
        sum_list (map (\<lambda>k. sum_list (map f (filter (\<lambda>r. by r = Some k) rows))) ?ks)"
    by (simp add: groupby_def comp_def)
  also have "\<dots> = sum_list (map f (filter (\<lambda>r. \<exists>k \<in> set ?ks. by r = Some k) rows))"
    by (rule sum_list_groups) simp
  also have "filter (\<lambda>r. \<exists>k \<in> set ?ks. by r = Some k) rows = filter (\<lambda>r. by r \<noteq> None) rows"
    by (rule filter_cong) (auto simp: map_filter_set)
  finally show ?thesis .
qed

lemma sort_descending_contract: "sorts_descending col (sort_descending col)"
  unfolding sorts_descending_def sort_descending_def
proof (intro allI conjI)
  fix rows :: "'a list"
  show "mset (rev (sort_key col (rev rows))) = mset rows" by simp
  have "sorted (map col (sort_key col (rev rows)))" by simp
  then have "sorted_wrt (\<lambda>a b. col a \<le> col b) (sort_key col (rev rows))"
    by (simp add: sorted_wrt_map)
  then show "sorted_wrt (\<lambda>a b. col b \<le> col a) (rev (sort_key col (rev rows)))"
    by (simp add: sorted_wrt_rev)
qed

lemma sum_list_mset_cong:
  fixes f :: "'r \<Rightarrow> 'a::comm_monoid_add"
  assumes "mset xs = mset ys"
  shows "sum_list (map f xs) = sum_list (map f ys)"
proof -
  have "sum_list (map f xs) = sum_mset (image_mset f (mset xs))"
    by (metis mset_map sum_mset_sum_list)
  also have "\<dots> = sum_mset (image_mset f (mset ys))" using assms by simp
  also have "\<dots> = sum_list (map f ys)" by (metis mset_map sum_mset_sum_list)
  finally show ?thesis .
qed

subsection \<open>The sales summary\<close>

lemma summary_agg_key: "summary_key (summary_agg (k, g)) = k"
  by (cases k) (simp add: summary_agg_def)

lemma sorts_descending_mset: "sorts_descending col srt \<Longrightarrow> mset (srt rows) = mset rows"
  by (simp add: sorts_descending_def)

lemma sorts_descending_set: "sorts_descending col srt \<Longrightarrow> set (srt rows) = set rows"
  by (metis sorts_descending_mset set_mset_mset)

lemma sorts_descending_sorted:
  "sorts_descending col srt \<Longrightarrow> sorted_wrt (\<lambda>a b. col b \<le> col a) (srt rows)"
  by (simp add: sorts_descending_def)

lemma sorts_descending_single: "sorts_descending col srt \<Longrightarrow> srt [x] = [x]"
  using sorts_descending_mset [of col srt "[x]"] by simp

lemma sorts_descending_distinct:
  assumes "sorts_descending col srt" and "distinct (map f rows)"
  shows "distinct (map f (srt rows))"
proof -
  have "mset (map f (srt rows)) = mset (map f rows)"
    using sorts_descending_mset [OF assms(1)] by (metis mset_map)
  then show ?thesis using assms(2) by (metis mset_eq_imp_distinct_iff)
qed

lemma create_sales_summary_Inr:
  assumes "Sales_parquet silver = Some sales_df" and "Products_parquet silver = Some products_df"
  shows "create_sales_summary srt silver =
           Inr (srt (map summary_agg (groupby summary_by
             (merge_inner sales_base.ProductKey product_row.ProductKey sales_df products_df))))"
  using assms by (simp add: create_sales_summary_def)

lemma summary_agg_quantity:
  "TotalQuantity (summary_agg kg) = sum_list (map (\<lambda>j. sales_base.OrderQuantity (fst j)) (snd kg))"
  by (simp add: summary_agg_def split: prod.splits)

lemma summary_groups_keys:
  "map summary_key (map summary_agg (groupby summary_by joined)) = map fst (groupby summary_by joined)"
  by (simp add: comp_def summary_agg_def split: prod.splits)

text \<open>
  Claim C1. With both silver tables present, \<open>create_sales_summary\<close> returns a view of the
  inner join of sales and products on \<open>ProductKey\<close>: it is sorted by \<open>TotalSales\<close>
  descending, it has exactly one row for each (\<open>ProductKey\<close>, \<open>ProductName\<close>, \<open>ModelName\<close>)
  of the join, and in each row \<open>TotalQuantity\<close> is the sum of \<open>OrderQuantity\<close>, \<open>TotalSales\<close>
  the sum of \<open>SalesAmount\<close>, \<open>AvgUnitPrice\<close> the mean of \<open>UnitPrice\<close> and \<open>OrderCount\<close> the
  number of joined rows of that group (sum and mean skip nulls, as pandas does). In
  particular two sales of product 1, of 2 and 3 units at price 10, give the single row
  with \<open>TotalQuantity = 5\<close>, \<open>TotalSales = 50\<close>, \<open>AvgUnitPrice = 10\<close>, \<open>OrderCount = 2\<close>.
\<close>

theorem sales_summary_view:
  assumes srt: "sorts_descending TotalSales srt"
    and sales: "Sales_parquet silver = Some sales_df"
    and products: "Products_parquet silver = Some products_df"
  shows "\<exists>view joined.
      create_sales_summary srt silver = Inr view \<and>
      joined = merge_inner sales_base.ProductKey product_row.ProductKey sales_df products_df \<and>
      set joined = {(s, p). s \<in> set sales_df \<and> p \<in> set products_df \<and>
                            product_row.ProductKey p = sales_base.ProductKey s} \<and>
      sorted_wrt (\<lambda>a b. TotalSales b \<le> TotalSales a) view \<and>
      distinct (map summary_key view) \<and>
      set (map summary_key view) = (\<lambda>j. product_key (snd j)) ` set joined \<and>
      (\<forall>v \<in> set view.
         let g = filter (\<lambda>j. product_key (snd j) = summary_key v) joined
         in TotalQuantity v = sum_list (map (\<lambda>j. sales_base.OrderQuantity (fst j)) g) \<and>
            TotalSales v = nansum (map (\<lambda>j. SalesAmount (fst j)) g) \<and>
            AvgUnitPrice v = nanmean (map (\<lambda>j. UnitPrice (fst j)) g) \<and>
            sales_summary_row.OrderCount v = length g) \<and>
      (\<forall>s1 s2 p.
         sales_df = [s1, s2] \<and> products_df = [p] \<and> product_row.ProductKey p = 1 \<and>
         sales_base.ProductKey s1 = 1 \<and> sales_base.OrderQuantity s1 = 2 \<and>
         UnitPrice s1 = Some 10 \<and> SalesAmount s1 = Some (2 * 10) \<and>
         sales_base.ProductKey s2 = 1 \<and> sales_base.OrderQuantity s2 = 3 \<and>
         UnitPrice s2 = Some 10 \<and> SalesAmount s2 = Some (3 * 10) \<longrightarrow>
         view = [\<lparr>sales_summary_row.ProductKey = 1,
                  sales_summary_row.ProductName = product_row.ProductName p,
                  sales_summary_row.ModelName = product_row.ModelName p,
                  TotalQuantity = 5, TotalSales = 50, AvgUnitPrice = Some 10,
                  sales_summary_row.OrderCount = 2\<rparr>])"
proof -
  define joined where
    "joined = merge_inner sales_base.ProductKey product_row.ProductKey sales_df products_df"
  define groups where "groups = groupby summary_by joined"
  define view where "view = srt (map summary_agg groups)"
  have run: "create_sales_summary srt silver = Inr view"
    using create_sales_summary_Inr [OF sales products] by (simp add: view_def groups_def joined_def)
  have join: "set joined = {(s, p). s \<in> set sales_df \<and> p \<in> set products_df \<and>
                            product_row.ProductKey p = sales_base.ProductKey s}"
    by (simp add: joined_def merge_inner_set)
  have sorted: "sorted_wrt (\<lambda>a b. TotalSales b \<le> TotalSales a) view"
    unfolding view_def by (rule sorts_descending_sorted [OF srt])
  have keys0: "map summary_key (map summary_agg groups) = map fst groups"
    unfolding groups_def by (rule summary_groups_keys)
  have "distinct (map fst groups)"
    unfolding groups_def by (rule groupby_distinct)
  then have "distinct (map summary_key (map summary_agg groups))"
    by (simp only: keys0)
  then have dist: "distinct (map summary_key view)"
    unfolding view_def by (rule sorts_descending_distinct [OF srt])
  have view_set: "set view = summary_agg ` set groups"
    by (simp add: view_def sorts_descending_set [OF srt])
  have "set (map summary_key view) = set (map summary_key (map summary_agg groups))"
    using view_set by (simp add: image_image)
  also have "\<dots> = set (map fst groups)" by (simp only: keys0)
  also have "\<dots> = {k. \<exists>j \<in> set joined. summary_by j = Some k}"
    unfolding groups_def by (rule groupby_key_set)
  also have "\<dots> = (\<lambda>j. product_key (snd j)) ` set joined"
    by (auto simp: summary_by_def)
  finally have keys: "set (map summary_key view) = (\<lambda>j. product_key (snd j)) ` set joined" .
  have aggs: "\<forall>v \<in> set view.
         let g = filter (\<lambda>j. product_key (snd j) = summary_key v) joined
         in TotalQuantity v = sum_list (map (\<lambda>j. sales_base.OrderQuantity (fst j)) g) \<and>
            TotalSales v = nansum (map (\<lambda>j. SalesAmount (fst j)) g) \<and>
            AvgUnitPrice v = nanmean (map (\<lambda>j. UnitPrice (fst j)) g) \<and>
            sales_summary_row.OrderCount v = length g"
  proof
    fix v assume "v \<in> set view"
    then obtain kg where kg: "kg \<in> set groups" and v: "v = summary_agg kg"
      using view_set by auto
    obtain k g where kg_eq: "kg = (k, g)" by (cases kg)
    have g: "g = filter (\<lambda>j. summary_by j = Some k) joined"
      using kg unfolding groups_def kg_eq groupby_member by simp
    have k: "summary_key v = k" by (simp only: v kg_eq summary_agg_key)
    have g': "g = filter (\<lambda>j. product_key (snd j) = summary_key v) joined"
      unfolding g k by (rule filter_cong) (auto simp: summary_by_def)
    have "TotalQuantity v = sum_list (map (\<lambda>j. sales_base.OrderQuantity (fst j)) g)"
      "TotalSales v = nansum (map (\<lambda>j. SalesAmount (fst j)) g)"
      "AvgUnitPrice v = nanmean (map (\<lambda>j. UnitPrice (fst j)) g)"
      "sales_summary_row.OrderCount v = length g"
      by (simp_all add: v kg_eq summary_agg_def split: prod.splits)
    then show "let g = filter (\<lambda>j. product_key (snd j) = summary_key v) joined
         in TotalQuantity v = sum_list (map (\<lambda>j. sales_base.OrderQuantity (fst j)) g) \<and>
            TotalSales v = nansum (map (\<lambda>j. SalesAmount (fst j)) g) \<and>
            AvgUnitPrice v = nanmean (map (\<lambda>j. UnitPrice (fst j)) g) \<and>
            sales_summary_row.OrderCount v = length g"
      unfolding Let_def g' [symmetric] by simp
  qed
  have example: "\<forall>s1 s2 p.
         sales_df = [s1, s2] \<and> products_df = [p] \<and> product_row.ProductKey p = 1 \<and>
         sales_base.ProductKey s1 = 1 \<and> sales_base.OrderQuantity s1 = 2 \<and>
         UnitPrice s1 = Some 10 \<and> SalesAmount s1 = Some (2 * 10) \<and>
         sales_base.ProductKey s2 = 1 \<and> sales_base.OrderQuantity s2 = 3 \<and>
         UnitPrice s2 = Some 10 \<and> SalesAmount s2 = Some (3 * 10) \<longrightarrow>
         view = [\<lparr>sales_summary_row.ProductKey = 1,
                  sales_summary_row.ProductName = product_row.ProductName p,
                  sales_summary_row.ModelName = product_row.ModelName p,
                  TotalQuantity = 5, TotalSales = 50, AvgUnitPrice = Some 10,
                  sales_summary_row.OrderCount = 2\<rparr>]"
  proof (intro allI impI)
    fix s1 s2 p
    assume h: "sales_df = [s1, s2] \<and> products_df = [p] \<and> product_row.ProductKey p = 1 \<and>
         sales_base.ProductKey s1 = 1 \<and> sales_base.OrderQuantity s1 = 2 \<and>
         UnitPrice s1 = Some 10 \<and> SalesAmount s1 = Some (2 * 10) \<and>
         sales_base.ProductKey s2 = 1 \<and> sales_base.OrderQuantity s2 = 3 \<and>
         UnitPrice s2 = Some 10 \<and> SalesAmount s2 = Some (3 * 10)"
    have j: "joined = [(s1, p), (s2, p)]"
      using h by (simp add: joined_def merge_inner_def)
    have gr: "groups = [(product_key p, [(s1, p), (s2, p)])]"
      by (simp add: groups_def j groupby_def summary_by_def List.map_filter_simps)
    show "view = [\<lparr>sales_summary_row.ProductKey = 1,
                  sales_summary_row.ProductName = product_row.ProductName p,
                  sales_summary_row.ModelName = product_row.ModelName p,
                  TotalQuantity = 5, TotalSales = 50, AvgUnitPrice = Some 10,
                  sales_summary_row.OrderCount = 2\<rparr>]"
      using h
      by (simp add: view_def gr sorts_descending_single [OF srt] summary_agg_def nansum_def
          nanmean_def List.map_filter_simps)
  qed
  show ?thesis
    using run join sorted dist keys aggs example joined_def by blast
qed

text \<open>
  The example from the bronze files on: the silver stage turns \<open>sample_bronze\<close> into the
  tables of \<open>sample_silver\<close>, and the view of those is the row of the claim.
\<close>

theorem sales_summary_view_witness:
  "sorts_descending TotalSales (sort_descending TotalSales) \<and>
   process_sales_data sample_bronze = Inr (Some sample_sales) \<and>
   process_product_data sample_bronze = Inr [sample_product 1 (Some 10)] \<and>
   Sales_parquet sample_silver = Some sample_sales \<and>
   Products_parquet sample_silver = Some [sample_product 1 (Some 10)] \<and>
   create_sales_summary (sort_descending TotalSales) sample_silver =
     Inr [\<lparr>sales_summary_row.ProductKey = 1, sales_summary_row.ProductName = ''Bike'',
           sales_summary_row.ModelName = ''Unknown Model'', TotalQuantity = 5, TotalSales = 50,
           AvgUnitPrice = Some 10, sales_summary_row.OrderCount = 2\<rparr>]"
proof -
  have c: "sorts_descending TotalSales (sort_descending TotalSales)"
    by (rule sort_descending_contract)
  have s: "Sales_parquet sample_silver = Some sample_sales"
    and p: "Products_parquet sample_silver = Some [sample_product 1 (Some 10)]"
    by (simp_all add: sample_silver_def)
  have b: "process_sales_data sample_bronze = Inr (Some sample_sales)"
    by code_simp
  have b': "process_product_data sample_bronze = Inr [sample_product 1 (Some 10)]"
    by code_simp
  from sales_summary_view [OF c s p] obtain view where
    run: "create_sales_summary (sort_descending TotalSales) sample_silver = Inr view" and
    ex: "\<forall>s1 s2 p.
         sample_sales = [s1, s2] \<and> [sample_product 1 (Some 10)] = [p] \<and> product_row.ProductKey p = 1 \<and>
         sales_base.ProductKey s1 = 1 \<and> sales_base.OrderQuantity s1 = 2 \<and>
         UnitPrice s1 = Some 10 \<and> SalesAmount s1 = Some (2 * 10) \<and>
         sales_base.ProductKey s2 = 1 \<and> sales_base.OrderQuantity s2 = 3 \<and>
         UnitPrice s2 = Some 10 \<and> SalesAmount s2 = Some (3 * 10) \<longrightarrow>
         view = [\<lparr>sales_summary_row.ProductKey = 1,
                  sales_summary_row.ProductName = product_row.ProductName p,
                  sales_summary_row.ModelName = product_row.ModelName p,
                  TotalQuantity = 5, TotalSales = 50, AvgUnitPrice = Some 10,
                  sales_summary_row.OrderCount = 2\<rparr>]"
    by blast
  from ex have "view = [\<lparr>sales_summary_row.ProductKey = 1, sales_summary_row.ProductName = ''Bike'',
           sales_summary_row.ModelName = ''Unknown Model'', TotalQuantity = 5, TotalSales = 50,
           AvgUnitPrice = Some 10, sales_summary_row.OrderCount = 2\<rparr>]"
    by (simp add: sample_sales_def sample_sale_def sample_product_def)
  with run c s p b b' show ?thesis by simp
qed

text \<open>
  Claim C6. The \<open>TotalQuantity\<close> values of the sales summary add up to the sum of
  \<open>OrderQuantity\<close> over the rows of the inner join of sales and products. Both sums are
  sums of the \<open>int64\<close> column, so the equation holds with the wrap-around of that type.
\<close>

theorem sales_summary_total_quantity:
  assumes srt: "sorts_descending TotalSales srt"
    and sales: "Sales_parquet silver = Some sales_df"
    and products: "Products_parquet silver = Some products_df"
  shows "\<exists>view.
      create_sales_summary srt silver = Inr view \<and>
      sum_list (map TotalQuantity view) =
        sum_list (map (\<lambda>j. sales_base.OrderQuantity (fst j))
          (merge_inner sales_base.ProductKey product_row.ProductKey sales_df products_df))"
proof -
  let ?joined = "merge_inner sales_base.ProductKey product_row.ProductKey sales_df products_df"
  let ?groups = "groupby summary_by ?joined"
  let ?qty = "\<lambda>j :: sales_row \<times> product_row. sales_base.OrderQuantity (fst j)"
  have "sum_list (map TotalQuantity (srt (map summary_agg ?groups))) =
        sum_list (map TotalQuantity (map summary_agg ?groups))"
    by (rule sum_list_mset_cong) (rule sorts_descending_mset [OF srt])
  also have "\<dots> = sum_list (map (\<lambda>kg. sum_list (map ?qty (snd kg))) ?groups)"
    by (simp add: comp_def summary_agg_quantity)
  also have "\<dots> = sum_list (map ?qty (filter (\<lambda>j. summary_by j \<noteq> None) ?joined))"
    by (rule groupby_sum)
  also have "\<dots> = sum_list (map ?qty ?joined)"
    by (simp add: summary_by_def)
  finally show ?thesis
    using create_sales_summary_Inr [OF sales products] by simp
qed


theorem sales_summary_total_quantity_witness:
  "sorts_descending TotalSales (sort_descending TotalSales) \<and>
   Sales_parquet sample_silver = Some sample_sales \<and>
   Products_parquet sample_silver = Some [sample_product 1 (Some 10)] \<and>
   (\<exists>view. create_sales_summary (sort_descending TotalSales) sample_silver = Inr view \<and>
      sum_list (map TotalQuantity view) = 5)"
proof -
  have c: "sorts_descending TotalSales (sort_descending TotalSales)"
    by (rule sort_descending_contract)
  have s: "Sales_parquet sample_silver = Some sample_sales"
    and p: "Products_parquet sample_silver = Some [sample_product 1 (Some 10)]"
    by (simp_all add: sample_silver_def)
  have "sum_list (map (\<lambda>j. sales_base.OrderQuantity (fst j))
          (merge_inner sales_base.ProductKey product_row.ProductKey sample_sales
             [sample_product 1 (Some 10)])) = 5"
    by (simp add: merge_inner_def sample_sales_def sample_sale_def sample_product_def)
  with sales_summary_total_quantity [OF c s p] c s p show ?thesis by simp
qed


subsection \<open>The monthly sales\<close>

lemma monthly_agg_key: "year_month (monthly_agg (k, g)) = k"
  by (cases k) (simp add: monthly_agg_def)

lemma monthly_groups_keys:
  "map year_month (map monthly_agg (groupby monthly_by joined)) = map fst (groupby monthly_by joined)"
  by (simp add: comp_def monthly_agg_def split: prod.splits)

lemma monthly_by_Some:
  "monthly_by j = Some k \<longleftrightarrow>
     calendar_row.Year (snd j) = Some (fst k) \<and> calendar_row.Month (snd j) = Some (snd k)"
  by (cases k) (auto simp: monthly_by_def split: option.splits)

lemma create_time_series_analysis_Inr:
  assumes "Sales_parquet silver = Some sales_df" and "Calendar_parquet silver = Some calendar_df"
  shows "create_time_series_analysis silver =
           Inr (sort_key year_month (map monthly_agg (groupby monthly_by
             (merge_inner sales_base.OrderDate calendar_row.Date sales_df calendar_df))))"
  using assms by (simp add: create_time_series_analysis_def)

text \<open>
  Claim C5. With both silver tables present, \<open>create_time_series_analysis\<close> returns a view
  of the inner join of sales and calendar on \<open>OrderDate = Date\<close> whose (\<open>Year\<close>, \<open>Month\<close>)
  pairs are strictly ascending, hence distinct, and are exactly the pairs that occur in
  the join; the \<open>OrderCount\<close> of a row is the number of joined rows of its month, whatever
  their order numbers. (A joined row whose calendar row has no year or month, which needs
  a null date on both sides, has no (\<open>Year\<close>, \<open>Month\<close>) pair and belongs to no group.)
\<close>

theorem monthly_sales_view:
  assumes sales: "Sales_parquet silver = Some sales_df"
    and calendar: "Calendar_parquet silver = Some calendar_df"
  shows "\<exists>view joined.
      create_time_series_analysis silver = Inr view \<and>
      joined = merge_inner sales_base.OrderDate calendar_row.Date sales_df calendar_df \<and>
      set joined = {(s, c). s \<in> set sales_df \<and> c \<in> set calendar_df \<and>
                            calendar_row.Date c = sales_base.OrderDate s} \<and>
      sorted_wrt (<) (map year_month view) \<and>
      set (map year_month view) =
        {(y, m). \<exists>j \<in> set joined. calendar_row.Year (snd j) = Some y \<and>
                                   calendar_row.Month (snd j) = Some m} \<and>
      (\<forall>v \<in> set view.
         monthly_sales_row.OrderCount v =
           length (filter (\<lambda>j. calendar_row.Year (snd j) = Some (monthly_sales_row.Year v) \<and>
                              calendar_row.Month (snd j) = Some (monthly_sales_row.Month v)) joined))"
proof -
  define joined where
    "joined = merge_inner sales_base.OrderDate calendar_row.Date sales_df calendar_df"
  define groups where "groups = groupby monthly_by joined"
  define view where "view = sort_key year_month (map monthly_agg groups)"
  have run: "create_time_series_analysis silver = Inr view"
    using create_time_series_analysis_Inr [OF sales calendar]
    by (simp add: view_def groups_def joined_def)
  have join: "set joined = {(s, c). s \<in> set sales_df \<and> c \<in> set calendar_df \<and>
                            calendar_row.Date c = sales_base.OrderDate s}"
    by (simp add: joined_def merge_inner_set)
  have keys0: "map year_month (map monthly_agg groups) = map fst groups"
    unfolding groups_def by (rule monthly_groups_keys)
  have "mset (map year_month view) = mset (map year_month (map monthly_agg groups))"
    unfolding view_def by (simp only: mset_map mset_sort)
  then have m: "mset (map year_month view) = mset (map fst groups)"
    by (simp only: keys0)
  have "distinct (map fst groups)"
    unfolding groups_def by (rule groupby_distinct)
  then have d: "distinct (map year_month view)"
    using m by (metis mset_eq_imp_distinct_iff)
  have "sorted (map year_month view)"
    unfolding view_def by (rule sorted_sort_key)
  with d have strict: "sorted_wrt (<) (map year_month view)"
    by (simp add: strict_sorted_iff)
  have "set (map year_month view) = set (map fst groups)"
    using m by (metis set_mset_mset)
  also have "\<dots> = {k. \<exists>j \<in> set joined. monthly_by j = Some k}"
    unfolding groups_def by (rule groupby_key_set)
  also have "\<dots> = {(y, m). \<exists>j \<in> set joined. calendar_row.Year (snd j) = Some y \<and>
                                   calendar_row.Month (snd j) = Some m}"
    by (force simp: monthly_by_Some)
  finally have keys: "set (map year_month view) =
        {(y, m). \<exists>j \<in> set joined. calendar_row.Year (snd j) = Some y \<and>
                                   calendar_row.Month (snd j) = Some m}" .
  have counts: "\<forall>v \<in> set view.
         monthly_sales_row.OrderCount v =
           length (filter (\<lambda>j. calendar_row.Year (snd j) = Some (monthly_sales_row.Year v) \<and>
                              calendar_row.Month (snd j) = Some (monthly_sales_row.Month v)) joined)"
  proof
    fix v assume "v \<in> set view"
    then obtain kg where kg: "kg \<in> set groups" and v: "v = monthly_agg kg"
      by (auto simp: view_def)
    obtain k g where kg_eq: "kg = (k, g)" by (cases kg)
    have g: "g = filter (\<lambda>j. monthly_by j = Some k) joined"
      using kg unfolding groups_def kg_eq groupby_member by simp
    have k: "year_month v = k" by (simp only: v kg_eq monthly_agg_key)
    have "monthly_sales_row.OrderCount v = length g"
      by (simp add: v kg_eq monthly_agg_def split: prod.splits)
    also have "g = filter (\<lambda>j. calendar_row.Year (snd j) = Some (monthly_sales_row.Year v) \<and>
                              calendar_row.Month (snd j) = Some (monthly_sales_row.Month v)) joined"
      unfolding g k [symmetric] by (rule filter_cong) (simp_all add: monthly_by_Some)
    finally show "monthly_sales_row.OrderCount v =
           length (filter (\<lambda>j. calendar_row.Year (snd j) = Some (monthly_sales_row.Year v) \<and>
                              calendar_row.Month (snd j) = Some (monthly_sales_row.Month v)) joined)" .
  qed
  show ?thesis
    using run join strict keys counts joined_def by blast
qed


text \<open>
  In the sample the two sales of the first month carry the same order number and count
  as two.
\<close>

theorem monthly_sales_view_witness:
  "Sales_parquet sample_silver_nulls = Some sample_sales_nulls \<and>
   Calendar_parquet sample_silver_nulls = Some sample_calendar \<and>
   create_time_series_analysis sample_silver_nulls =
     Inr [\<lparr>Year = 2016, Month = 1, MonthlySales = 50, OrderCount = 2, AvgOrderValue = Some 25\<rparr>,
          \<lparr>Year = 2016, Month = 2, MonthlySales = 0, OrderCount = 2, AvgOrderValue = Some 0\<rparr>] \<and>
   (\<exists>view. create_time_series_analysis sample_silver_nulls = Inr view \<and>
      sorted_wrt (<) (map year_month view))"
proof -
  have s: "Sales_parquet sample_silver_nulls = Some sample_sales_nulls"
    and c: "Calendar_parquet sample_silver_nulls = Some sample_calendar"
    by (simp_all add: sample_silver_nulls_def)
  have run: "create_time_series_analysis sample_silver_nulls =
     Inr [\<lparr>Year = 2016, Month = 1, MonthlySales = 50, OrderCount = 2, AvgOrderValue = Some 25\<rparr>,
          \<lparr>Year = 2016, Month = 2, MonthlySales = 0, OrderCount = 2, AvgOrderValue = Some 0\<rparr>]"
    by code_simp
  from monthly_sales_view [OF s c] have
    "\<exists>view. create_time_series_analysis sample_silver_nulls = Inr view \<and>
      sorted_wrt (<) (map year_month view)"
    by blast
  with s c run show ?thesis by blast
qed

subsection \<open>The customer insights\<close>

lemma insights_agg_key: "insights_key (insights_agg (k, g)) = k"
  by (cases k) (simp add: insights_agg_def)

lemma map_filter_Nil: "List.map_filter f xs = [] \<longleftrightarrow> (\<forall>x \<in> set xs. f x = None)"
  by (induction xs) (auto simp: List.map_filter_simps split: option.splits)

lemma map_filter_length_le: "length (List.map_filter f xs) \<le> length xs"
  by (induction xs) (auto simp: List.map_filter_simps split: option.splits)

lemma map_filter_length: "length (List.map_filter f xs) = length xs \<longleftrightarrow> (\<forall>x \<in> set xs. f x \<noteq> None)"
proof (induction xs)
  case Nil
  then show ?case by (simp add: List.map_filter_simps)
next
  case (Cons x xs)
  have le: "length (List.map_filter f xs) \<le> length xs" by (rule map_filter_length_le)
  show ?case
  proof (cases "f x")
    case None
    then show ?thesis using le by (auto simp: List.map_filter_simps)
  next
    case (Some a)
    then show ?thesis using Cons by (auto simp: List.map_filter_simps)
  qed
qed

lemma map_filter_count:
  "length (List.map_filter f xs) = length (filter (\<lambda>x. f x \<noteq> None) xs)"
  by (induction xs) (auto simp: List.map_filter_simps split: option.splits)

lemma map_filter_id_Nil: "List.map_filter id xs = [] \<longleftrightarrow> (\<forall>x \<in> set xs. x = None)"
  using map_filter_Nil [of id xs] by simp

lemma map_filter_id_length: "length (List.map_filter id xs) = length xs \<longleftrightarrow> None \<notin> set xs"
  using map_filter_length [of id xs] by auto

lemma map_filter_id_count:
  "length (List.map_filter id xs) = length (filter (\<lambda>x. x \<noteq> None) xs)"
  using map_filter_count [of id xs] by simp

lemma nanmean_eq_average:
  assumes "xs \<noteq> []"
  shows "nanmean xs = Some (nansum xs / of_nat (length xs)) \<longleftrightarrow>
           None \<notin> set xs \<or> (nansum xs = 0 \<and> (\<exists>a. Some a \<in> set xs))"
proof (cases "List.map_filter id xs = []")
  case True
  then have all: "\<forall>x \<in> set xs. x = None" by (simp add: map_filter_id_Nil)
  with assms have "None \<in> set xs" by (cases xs) auto
  moreover have "\<not> (\<exists>a. Some a \<in> set xs)" using all by auto
  moreover have "nanmean xs = None" using True by (simp add: nanmean_def)
  ultimately show ?thesis by simp
next
  case False
  define n where "n = length (List.map_filter id xs)"
  define N where "N = length xs"
  define S where "S = nansum xs"
  have n: "0 < n" using False by (simp add: n_def)
  have N: "0 < N" using assms by (simp add: N_def)
  have some: "\<exists>a. Some a \<in> set xs"
    using False unfolding map_filter_id_Nil by (metis not_None_eq)
  have mean: "nanmean xs = Some (S / of_nat n)"
    using False by (simp add: nanmean_def nansum_def S_def n_def Let_def)
  have "S / of_nat n = S / of_nat N \<longleftrightarrow> S = 0 \<or> n = N"
    using n N by (auto simp: field_simps)
  moreover have "n = N \<longleftrightarrow> None \<notin> set xs"
    unfolding n_def N_def by (rule map_filter_id_length)
  ultimately show ?thesis
    using mean some by (auto simp: S_def N_def)
qed

lemma create_customer_insights_Inr:
  assumes "Customers_parquet silver = Some customers_df" and "Sales_parquet silver = Some sales_df"
  shows "create_customer_insights srt silver =
           Inr (srt (map insights_agg (groupby insights_by
             (merge_inner sales_base.CustomerKey customer_row.CustomerKey sales_df customers_df))))"
  using assms by (simp add: create_customer_insights_def)

text \<open>
  Claim C9, as amended. In a row of the customer insights view, \<open>OrderCount\<close> counts every
  joined sales row of the group, also one whose \<open>SalesAmount\<close> is null, while \<open>TotalSpend\<close>
  and \<open>AvgOrderValue\<close> are the sum and the mean of the non-null amounts only (the mean is
  null when there is none). So \<open>AvgOrderValue\<close> equals \<open>TotalSpend / OrderCount\<close> exactly
  when no amount of the group is null, or when the group has a non-null amount and its
  \<open>TotalSpend\<close> is 0.
\<close>

theorem customer_insights_nulls:
  assumes srt: "sorts_descending TotalSpend srt"
    and customers: "Customers_parquet silver = Some customers_df"
    and sales: "Sales_parquet silver = Some sales_df"
  shows "\<exists>view joined.
      create_customer_insights srt silver = Inr view \<and>
      joined = merge_inner sales_base.CustomerKey customer_row.CustomerKey sales_df customers_df \<and>
      (\<forall>v \<in> set view.
         let amounts = map (\<lambda>j. SalesAmount (fst j))
                         (filter (\<lambda>j. insights_by j = Some (insights_key v)) joined)
         in amounts \<noteq> [] \<and>
            customer_insights_row.OrderCount v = length amounts \<and>
            TotalSpend v = sum_list (List.map_filter id amounts) \<and>
            customer_insights_row.AvgOrderValue v =
              (if \<forall>a \<in> set amounts. a = None then None
               else Some (TotalSpend v / of_nat (length (filter (\<lambda>a. a \<noteq> None) amounts)))) \<and>
            (customer_insights_row.AvgOrderValue v =
               Some (TotalSpend v / of_nat (customer_insights_row.OrderCount v)) \<longleftrightarrow>
             None \<notin> set amounts \<or> (TotalSpend v = 0 \<and> (\<exists>a. Some a \<in> set amounts))))"
proof -
  define joined where
    "joined = merge_inner sales_base.CustomerKey customer_row.CustomerKey sales_df customers_df"
  define groups where "groups = groupby insights_by joined"
  define view where "view = srt (map insights_agg groups)"
  have run: "create_customer_insights srt silver = Inr view"
    using create_customer_insights_Inr [OF customers sales]
    by (simp add: view_def groups_def joined_def)
  have view_set: "set view = insights_agg ` set groups"
    by (simp add: view_def sorts_descending_set [OF srt])
  have rows: "\<forall>v \<in> set view.
         let amounts = map (\<lambda>j. SalesAmount (fst j))
                         (filter (\<lambda>j. insights_by j = Some (insights_key v)) joined)
         in amounts \<noteq> [] \<and>
            customer_insights_row.OrderCount v = length amounts \<and>
            TotalSpend v = sum_list (List.map_filter id amounts) \<and>
            customer_insights_row.AvgOrderValue v =
              (if \<forall>a \<in> set amounts. a = None then None
               else Some (TotalSpend v / of_nat (length (filter (\<lambda>a. a \<noteq> None) amounts)))) \<and>
            (customer_insights_row.AvgOrderValue v =
               Some (TotalSpend v / of_nat (customer_insights_row.OrderCount v)) \<longleftrightarrow>
             None \<notin> set amounts \<or> (TotalSpend v = 0 \<and> (\<exists>a. Some a \<in> set amounts)))"
  proof
    fix v assume "v \<in> set view"
    then obtain kg where kg: "kg \<in> set groups" and v: "v = insights_agg kg"
      using view_set by auto
    obtain k g where kg_eq: "kg = (k, g)" by (cases kg)
    have g: "g = filter (\<lambda>j. insights_by j = Some k) joined"
      and ex: "\<exists>j \<in> set joined. insights_by j = Some k"
      using kg unfolding groups_def kg_eq groupby_member by simp_all
    have k: "insights_key v = k" by (simp only: v kg_eq insights_agg_key)
    define amounts where "amounts = map (\<lambda>j. SalesAmount (fst j)) g"
    have ne: "amounts \<noteq> []"
      using ex by (auto simp: amounts_def g filter_empty_conv)
    have cnt: "customer_insights_row.OrderCount v = length amounts"
      and tot: "TotalSpend v = nansum amounts"
      and avg: "customer_insights_row.AvgOrderValue v = nanmean amounts"
      by (simp_all add: v kg_eq insights_agg_def amounts_def split: prod.splits)
    have tot': "TotalSpend v = sum_list (List.map_filter id amounts)"
      using tot by (simp add: nansum_def)
    have avg': "customer_insights_row.AvgOrderValue v =
              (if \<forall>a \<in> set amounts. a = None then None
               else Some (TotalSpend v / of_nat (length (filter (\<lambda>a. a \<noteq> None) amounts))))"
      unfolding avg tot'
      by (simp add: nanmean_def Let_def map_filter_id_Nil map_filter_id_count)
    have iff: "customer_insights_row.AvgOrderValue v =
               Some (TotalSpend v / of_nat (customer_insights_row.OrderCount v)) \<longleftrightarrow>
             None \<notin> set amounts \<or> (TotalSpend v = 0 \<and> (\<exists>a. Some a \<in> set amounts))"
      unfolding avg tot cnt by (rule nanmean_eq_average [OF ne])
    show "let amounts = map (\<lambda>j. SalesAmount (fst j))
                         (filter (\<lambda>j. insights_by j = Some (insights_key v)) joined)
         in amounts \<noteq> [] \<and>
            customer_insights_row.OrderCount v = length amounts \<and>
            TotalSpend v = sum_list (List.map_filter id amounts) \<and>
            customer_insights_row.AvgOrderValue v =
              (if \<forall>a \<in> set amounts. a = None then None
               else Some (TotalSpend v / of_nat (length (filter (\<lambda>a. a \<noteq> None) amounts)))) \<and>
            (customer_insights_row.AvgOrderValue v =
               Some (TotalSpend v / of_nat (customer_insights_row.OrderCount v)) \<longleftrightarrow>
             None \<notin> set amounts \<or> (TotalSpend v = 0 \<and> (\<exists>a. Some a \<in> set amounts)))"
      unfolding Let_def k g [symmetric] amounts_def [symmetric]
      using ne cnt tot' avg' iff by blast
  qed
  show ?thesis
    using run rows joined_def by blast
qed


theorem customer_insights_nulls_witness:
  "sorts_descending TotalSpend (sort_descending TotalSpend) \<and>
   Customers_parquet sample_silver_nulls = Some sample_customers \<and>
   Sales_parquet sample_silver_nulls = Some sample_sales_nulls \<and>
   create_customer_insights (sort_descending TotalSpend) sample_silver_nulls =
     Inr [sample_insights_7, sample_insights_8] \<and>
   (\<exists>view. create_customer_insights (sort_descending TotalSpend) sample_silver_nulls = Inr view \<and>
      (\<forall>v \<in> set view.
         customer_insights_row.OrderCount v =
           length (filter (\<lambda>j. insights_by j = Some (insights_key v))
             (merge_inner sales_base.CustomerKey customer_row.CustomerKey
                sample_sales_nulls sample_customers))))"
proof -
  have c: "sorts_descending TotalSpend (sort_descending TotalSpend)"
    by (rule sort_descending_contract)
  have cu: "Customers_parquet sample_silver_nulls = Some sample_customers"
    and sa: "Sales_parquet sample_silver_nulls = Some sample_sales_nulls"
    by (simp_all add: sample_silver_nulls_def)
  have run: "create_customer_insights (sort_descending TotalSpend) sample_silver_nulls =
     Inr [sample_insights_7, sample_insights_8]"
    by code_simp
  from customer_insights_nulls [OF c cu sa] obtain view where
    v: "create_customer_insights (sort_descending TotalSpend) sample_silver_nulls = Inr view" and
    rows: "\<forall>v \<in> set view.
         let amounts = map (\<lambda>j. SalesAmount (fst j))
                         (filter (\<lambda>j. insights_by j = Some (insights_key v))
                            (merge_inner sales_base.CustomerKey customer_row.CustomerKey
                               sample_sales_nulls sample_customers))
         in amounts \<noteq> [] \<and>
            customer_insights_row.OrderCount v = length amounts \<and>
            TotalSpend v = sum_list (List.map_filter id amounts) \<and>
            customer_insights_row.AvgOrderValue v =
              (if \<forall>a \<in> set amounts. a = None then None
               else Some (TotalSpend v / of_nat (length (filter (\<lambda>a. a \<noteq> None) amounts)))) \<and>
            (customer_insights_row.AvgOrderValue v =
               Some (TotalSpend v / of_nat (customer_insights_row.OrderCount v)) \<longleftrightarrow>
             None \<notin> set amounts \<or> (TotalSpend v = 0 \<and> (\<exists>a. Some a \<in> set amounts)))"
    by blast
  have "\<forall>v \<in> set view.
         customer_insights_row.OrderCount v =
           length (filter (\<lambda>j. insights_by j = Some (insights_key v))
             (merge_inner sales_base.CustomerKey customer_row.CustomerKey
                sample_sales_nulls sample_customers))"
  proof
    fix w assume "w \<in> set view"
    with rows show "customer_insights_row.OrderCount w =
           length (filter (\<lambda>j. insights_by j = Some (insights_key w))
             (merge_inner sales_base.CustomerKey customer_row.CustomerKey
                sample_sales_nulls sample_customers))"
      unfolding Let_def by (simp only: length_map)
  qed
  with v have
    "\<exists>view. create_customer_insights (sort_descending TotalSpend) sample_silver_nulls = Inr view \<and>
      (\<forall>v \<in> set view.
         customer_insights_row.OrderCount v =
           length (filter (\<lambda>j. insights_by j = Some (insights_key v))
             (merge_inner sales_base.CustomerKey customer_row.CustomerKey
                sample_sales_nulls sample_customers)))"
    by blast
  with c cu sa run show ?thesis by blast
qed

text \<open>
  Claim C9 as stated says that the equation holds only for groups without a null amount.
  Customer 8 of the sample has the amounts 0 and null: the view gives \<open>TotalSpend = 0\<close>,
  \<open>OrderCount = 2\<close> and \<open>AvgOrderValue = 0\<close>, which is \<open>TotalSpend / OrderCount\<close>.
\<close>

theorem customer_insights_average_counterexample:
  "create_customer_insights (sort_descending TotalSpend) sample_silver_nulls =
     Inr [sample_insights_7, sample_insights_8] \<and>
   customer_insights_row.AvgOrderValue sample_insights_8 =
     Some (TotalSpend sample_insights_8 / of_nat (customer_insights_row.OrderCount sample_insights_8)) \<and>
   map (\<lambda>j. SalesAmount (fst j))
     (filter (\<lambda>j. insights_by j = Some (insights_key sample_insights_8))
        (merge_inner sales_base.CustomerKey customer_row.CustomerKey
           sample_sales_nulls sample_customers)) = [Some 0, None]"
proof (intro conjI)
  show "create_customer_insights (sort_descending TotalSpend) sample_silver_nulls =
     Inr [sample_insights_7, sample_insights_8]"
    by code_simp
  show "customer_insights_row.AvgOrderValue sample_insights_8 =
     Some (TotalSpend sample_insights_8 / of_nat (customer_insights_row.OrderCount sample_insights_8))"
    by (simp add: sample_insights_8_def)
  show "map (\<lambda>j. SalesAmount (fst j))
     (filter (\<lambda>j. insights_by j = Some (insights_key sample_insights_8))
        (merge_inner sales_base.CustomerKey customer_row.CustomerKey
           sample_sales_nulls sample_customers)) = [Some 0, None]"
    by code_simp
qed


subsection \<open>Conversions of the silver stage\<close>

lemma then_do_Inr: "then_do m f = Inr y \<longleftrightarrow> (\<exists>v. m = Inr v \<and> f v = Inr y)"
  by (cases m) (simp_all add: then_do_def)


lemma sequence_map_Inr:
  "sequence (map f xs) = Inr ys \<longleftrightarrow> list_all2 (\<lambda>x y. f x = Inr y) xs ys"
proof (induction xs arbitrary: ys)
  case Nil
  then show ?case by auto
next
  case (Cons x xs)
  show ?case
    by (cases ys) (auto simp: then_do_Inr Cons)
qed



lemma astype_int_numeric: "(\<exists>k. astype_int c = Inr k) \<longleftrightarrow> is_numeric c"
  by (cases c) simp_all


lemma to_datetime_error: "to_datetime d = Inl e \<Longrightarrow> e = ValueError"
  by (cases d) auto






subsection \<open>The silver sales table\<close>

lemma add_metrics_truncate: "sales_base.truncate (add_metrics m) = fst m"
  by (cases "fst m") (simp add: add_metrics_def Let_def sales_base.truncate_def sales_base.extend_def)


lemma add_metrics_price:
  "UnitPrice (add_metrics m) = (case snd m of None \<Rightarrow> None | Some p \<Rightarrow> products_csv_row.ProductPrice p)"
  by (cases "fst m") (simp add: add_metrics_def Let_def sales_base.extend_def sales_row.fields_def)

lemma add_metrics_amounts:
  "SalesAmount (add_metrics m) = fmul_int (sales_base.OrderQuantity (fst m)) (UnitPrice (add_metrics m))"
  "TotalProductCost (add_metrics m) = fmul (SalesAmount (add_metrics m)) (7 / 10)"
  "Profit (add_metrics m) = fsub (SalesAmount (add_metrics m)) (TotalProductCost (add_metrics m))"
  "ProfitMargin (add_metrics m) = fdiv (Profit (add_metrics m)) (SalesAmount (add_metrics m))"
  by (cases "fst m"; simp add: add_metrics_def Let_def sales_base.extend_def sales_row.fields_def)+

lemma merge_left_alt:
  "merge_left matches left right =
     concat (map (\<lambda>l. if filter (matches l) right = [] then [(l, None)]
                        else map (\<lambda>r. (l, Some r)) (filter (matches l) right)) left)"
  unfolding merge_left_def
  by (rule arg_cong [where f = concat], rule map_cong, rule refl) (simp split: list.splits)

lemma merge_left_Some:
  "(l, Some r) \<in> set (merge_left matches left right) \<longleftrightarrow>
     l \<in> set left \<and> r \<in> set right \<and> matches l r"
  by (auto simp: merge_left_alt filter_empty_conv split: if_splits)

lemma merge_left_None:
  "(l, None) \<in> set (merge_left matches left right) \<longleftrightarrow>
     l \<in> set left \<and> (\<forall>r \<in> set right. \<not> matches l r)"
  by (auto simp: merge_left_alt filter_empty_conv split: if_splits)

lemma merge_left_fst: "fst ` set (merge_left matches left right) = set left"
proof
  show "fst ` set (merge_left matches left right) \<subseteq> set left"
    by (auto simp: merge_left_alt split: if_splits)
  show "set left \<subseteq> fst ` set (merge_left matches left right)"
  proof
    fix l assume l: "l \<in> set left"
    show "l \<in> fst ` set (merge_left matches left right)"
    proof (cases "\<exists>r \<in> set right. matches l r")
      case True
      then obtain r where "(l, Some r) \<in> set (merge_left matches left right)"
        using l by (auto simp: merge_left_Some)
      then show ?thesis by force
    next
      case False
      then have "(l, None) \<in> set (merge_left matches left right)"
        using l by (simp add: merge_left_None)
      then show ?thesis by force
    qed
  qed
qed

lemma process_sales_data_Some:
  "process_sales_data data_dir = Inr (Some final_df) \<longleftrightarrow>
     (\<exists>sales_df product_df.
        present_sales data_dir \<noteq> [] \<and>
        sequence (map clean_sale (concat (present_sales data_dir))) = Inr sales_df \<and>
        Products_csv data_dir = Some product_df \<and>
        (\<forall>p \<in> set product_df. \<not> is_text (products_csv_row.ProductKey p)) \<and>
        final_df = map add_metrics (merge_left sale_matches sales_df product_df))"
  by (auto simp: process_sales_data_def Let_def then_do_Inr split: option.splits if_splits)

lemma process_sales_data_None:
  "process_sales_data data_dir = Inr None \<longleftrightarrow> present_sales data_dir = []"
  by (auto simp: process_sales_data_def Let_def then_do_Inr split: option.splits if_splits)

lemma present_sales_Nil:
  "present_sales data_dir = [] \<longleftrightarrow> (\<forall>f \<in> set sales_files. map_of (Sales_csv data_dir) f = None)"
  by (rule map_filter_Nil)

lemma profit_zero: "SalesAmount (add_metrics m) = Some 0 \<Longrightarrow> Profit (add_metrics m) = Some 0"
  by (simp add: add_metrics_amounts fmul_def fsub_def)



text \<open>
  Claim C7. The join of the silver stage is a left join: the sales rows of the output,
  without the added columns, are exactly the converted sales rows, so none is dropped;
  and an output row whose \<open>ProductKey\<close> matches no product has a null \<open>UnitPrice\<close>,
  \<open>SalesAmount\<close>, \<open>TotalProductCost\<close>, \<open>Profit\<close> and \<open>ProfitMargin\<close>. The inner join of the
  gold stage, in contrast, has no row for a sale whose \<open>ProductKey\<close> no product has.
\<close>

theorem sales_left_join:
  assumes run: "process_sales_data data_dir = Inr (Some final_df)"
  shows "\<exists>sales_df product_df.
      sequence (map clean_sale (concat (present_sales data_dir))) = Inr sales_df \<and>
      Products_csv data_dir = Some product_df \<and>
      sales_base.truncate ` set final_df = set sales_df \<and>
      (\<forall>r \<in> set final_df.
         (\<forall>p \<in> set product_df. \<not> sale_matches (sales_base.truncate r) p) \<longrightarrow>
         UnitPrice r = None \<and> SalesAmount r = None \<and> TotalProductCost r = None \<and>
         Profit r = None \<and> ProfitMargin r = None) \<and>
      (\<forall>silver_sales silver_products s.
         s \<in> set silver_sales \<and>
         (\<forall>p \<in> set silver_products. product_row.ProductKey p \<noteq> sales_base.ProductKey s) \<longrightarrow>
         s \<notin> fst ` set (merge_inner sales_base.ProductKey product_row.ProductKey
                           silver_sales silver_products))"
proof -
  from run obtain sales_df product_df where
    clean: "sequence (map clean_sale (concat (present_sales data_dir))) = Inr sales_df" and
    products: "Products_csv data_dir = Some product_df" and
    final: "final_df = map add_metrics (merge_left sale_matches sales_df product_df)"
    unfolding process_sales_data_Some by blast
  have "sales_base.truncate ` set final_df =
          fst ` set (merge_left sale_matches sales_df product_df)"
    unfolding final by (simp add: image_image add_metrics_truncate)
  then have all: "sales_base.truncate ` set final_df = set sales_df"
    by (simp only: merge_left_fst)
  have nulls: "\<forall>r \<in> set final_df.
         (\<forall>p \<in> set product_df. \<not> sale_matches (sales_base.truncate r) p) \<longrightarrow>
         UnitPrice r = None \<and> SalesAmount r = None \<and> TotalProductCost r = None \<and>
         Profit r = None \<and> ProfitMargin r = None"
  proof (intro ballI impI)
    fix r assume "r \<in> set final_df"
      and un: "\<forall>p \<in> set product_df. \<not> sale_matches (sales_base.truncate r) p"
    then obtain m where
      m: "m \<in> set (merge_left sale_matches sales_df product_df)" and r: "r = add_metrics m"
      using final by auto
    obtain s po where m_eq: "m = (s, po)" by (cases m)
    have s: "sales_base.truncate r = s" by (simp add: r m_eq add_metrics_truncate)
    have "po = None"
    proof (cases po)
      case None
      then show ?thesis .
    next
      case (Some p)
      then have "p \<in> set product_df \<and> sale_matches s p"
        using m by (simp add: m_eq merge_left_Some)
      then show ?thesis using un s by auto
    qed
    then show "UnitPrice r = None \<and> SalesAmount r = None \<and> TotalProductCost r = None \<and>
         Profit r = None \<and> ProfitMargin r = None"
      by (simp add: r m_eq add_metrics_amounts add_metrics_price fmul_int_def fmul_def fsub_def fdiv_def)
  qed
  have inner: "\<forall>silver_sales silver_products s.
         s \<in> set silver_sales \<and>
         (\<forall>p \<in> set silver_products. product_row.ProductKey p \<noteq> sales_base.ProductKey s) \<longrightarrow>
         s \<notin> fst ` set (merge_inner sales_base.ProductKey product_row.ProductKey
                           silver_sales silver_products)"
    by (auto simp: merge_inner_set)
  from clean products all nulls inner show ?thesis by blast
qed

theorem sales_left_join_witness:
  "process_sales_data sample_bronze_unmatched = Inr (Some sample_sales_unmatched) \<and>
   sample_sales_unmatched ! 1 \<in> set sample_sales_unmatched \<and>
   sales_base.ProductKey (sample_sales_unmatched ! 1) = 9 \<and>
   Products_csv sample_bronze_unmatched = Some [sample_product_csv (IntLit 1) (Some 10)] \<and>
   UnitPrice (sample_sales_unmatched ! 1) = None \<and>
   SalesAmount (sample_sales_unmatched ! 1) = None \<and>
   TotalProductCost (sample_sales_unmatched ! 1) = None \<and>
   Profit (sample_sales_unmatched ! 1) = None \<and>
   ProfitMargin (sample_sales_unmatched ! 1) = None \<and>
   merge_inner sales_base.ProductKey product_row.ProductKey
     [sample_sales_unmatched ! 1] [sample_product 1 (Some 10)] = []"
proof -
  have run: "process_sales_data sample_bronze_unmatched = Inr (Some sample_sales_unmatched)"
    by code_simp
  have r1: "sample_sales_unmatched ! 1 \<in> set sample_sales_unmatched"
    by (simp add: sample_sales_unmatched_def)
  have k: "sales_base.ProductKey (sample_sales_unmatched ! 1) = 9"
    by (simp add: sample_sales_unmatched_def sample_sale_def)
  have products: "Products_csv sample_bronze_unmatched = Some [sample_product_csv (IntLit 1) (Some 10)]"
    by (simp add: sample_bronze_unmatched_def)
  from sales_left_join [OF run] obtain sales_df product_df where
    p: "Products_csv sample_bronze_unmatched = Some product_df" and
    nulls: "\<forall>r \<in> set sample_sales_unmatched.
         (\<forall>p \<in> set product_df. \<not> sale_matches (sales_base.truncate r) p) \<longrightarrow>
         UnitPrice r = None \<and> SalesAmount r = None \<and> TotalProductCost r = None \<and>
         Profit r = None \<and> ProfitMargin r = None"
    by blast
  have pd: "product_df = [sample_product_csv (IntLit 1) (Some 10)]"
    using p products by simp
  have "\<forall>p \<in> set product_df. \<not> sale_matches (sales_base.truncate (sample_sales_unmatched ! 1)) p"
    by (simp add: pd sample_product_csv_def sample_sales_unmatched_def sample_sale_def
        sales_base.truncate_def)
  with nulls r1 have
    "UnitPrice (sample_sales_unmatched ! 1) = None \<and>
     SalesAmount (sample_sales_unmatched ! 1) = None \<and>
     TotalProductCost (sample_sales_unmatched ! 1) = None \<and>
     Profit (sample_sales_unmatched ! 1) = None \<and>
     ProfitMargin (sample_sales_unmatched ! 1) = None"
    by blast
  moreover have "merge_inner sales_base.ProductKey product_row.ProductKey
     [sample_sales_unmatched ! 1] [sample_product 1 (Some 10)] = []"
    using k by (simp add: merge_inner_def sample_product_def)
  ultimately show ?thesis using run r1 k products by blast
qed

text \<open>
  Claim C4, as amended. When none of the three yearly sales files exists,
  \<open>process_sales_data\<close> raises nothing and returns \<open>None\<close>. When at least one exists it
  does not return \<open>None\<close>, and the absent years cause no error: if the fields of the files
  that exist convert and the product file is present with a numeric key column, it
  returns the table built from the rows of the existing files, as many as these files
  have together.
\<close>

theorem process_sales_data_files:
  "((\<forall>f \<in> set sales_files. map_of (Sales_csv data_dir) f = None) \<longrightarrow>
      process_sales_data data_dir = Inr None) \<and>
   ((\<exists>f \<in> set sales_files. map_of (Sales_csv data_dir) f \<noteq> None) \<longrightarrow>
      process_sales_data data_dir \<noteq> Inr None \<and>
      (\<forall>sales_df product_df.
         sequence (map clean_sale (concat (present_sales data_dir))) = Inr sales_df \<and>
         Products_csv data_dir = Some product_df \<and>
         (\<forall>p \<in> set product_df. \<not> is_text (products_csv_row.ProductKey p)) \<longrightarrow>
         (\<exists>final_df. process_sales_data data_dir = Inr (Some final_df) \<and>
            sales_base.truncate ` set final_df = set sales_df \<and>
            length sales_df = sum_list (map length (present_sales data_dir)))))"
proof (intro conjI impI allI)
  assume "\<forall>f \<in> set sales_files. map_of (Sales_csv data_dir) f = None"
  then show "process_sales_data data_dir = Inr None"
    by (simp only: process_sales_data_None present_sales_Nil)
next
  assume "\<exists>f \<in> set sales_files. map_of (Sales_csv data_dir) f \<noteq> None"
  then show "process_sales_data data_dir \<noteq> Inr None"
    by (auto simp: process_sales_data_None present_sales_Nil)
next
  fix sales_df product_df
  assume some: "\<exists>f \<in> set sales_files. map_of (Sales_csv data_dir) f \<noteq> None"
    and ok: "sequence (map clean_sale (concat (present_sales data_dir))) = Inr sales_df \<and>
         Products_csv data_dir = Some product_df \<and>
         (\<forall>p \<in> set product_df. \<not> is_text (products_csv_row.ProductKey p))"
  define final_df where "final_df = map add_metrics (merge_left sale_matches sales_df product_df)"
  have ne: "present_sales data_dir \<noteq> []"
    using some by (auto simp: present_sales_Nil)
  have run: "process_sales_data data_dir = Inr (Some final_df)"
    unfolding process_sales_data_Some using ne ok final_df_def by blast
  have "sales_base.truncate ` set final_df =
          fst ` set (merge_left sale_matches sales_df product_df)"
    unfolding final_df_def by (simp add: image_image add_metrics_truncate)
  then have all: "sales_base.truncate ` set final_df = set sales_df"
    by (simp only: merge_left_fst)
  have "list_all2 (\<lambda>x y. clean_sale x = Inr y) (concat (present_sales data_dir)) sales_df"
    using ok by (simp add: sequence_map_Inr)
  then have "length sales_df = length (concat (present_sales data_dir))"
    by (simp add: list_all2_lengthD)
  then have len: "length sales_df = sum_list (map length (present_sales data_dir))"
    by (simp add: length_concat)
  from run all len
  show "\<exists>final_df. process_sales_data data_dir = Inr (Some final_df) \<and>
            sales_base.truncate ` set final_df = set sales_df \<and>
            length sales_df = sum_list (map length (present_sales data_dir))"
    by blast
qed


theorem process_sales_data_files_witness:
  "map_of (Sales_csv sample_bronze_unmatched) ''AdventureWorks_Sales_2015.csv'' \<noteq> None \<and>
   map_of (Sales_csv sample_bronze_unmatched) ''AdventureWorks_Sales_2016.csv'' = None \<and>
   process_sales_data sample_bronze_unmatched \<noteq> Inr None \<and>
   process_sales_data sample_bronze_unmatched = Inr (Some sample_sales_unmatched) \<and>
   length sample_sales_unmatched = 3 \<and>
   process_sales_data sample_bronze_no_sales = Inr None"
proof -
  have a: "map_of (Sales_csv sample_bronze_unmatched) ''AdventureWorks_Sales_2015.csv'' \<noteq> None"
    and b: "map_of (Sales_csv sample_bronze_unmatched) ''AdventureWorks_Sales_2016.csv'' = None"
    by (simp_all add: sample_bronze_unmatched_def)
  have "\<exists>f \<in> set sales_files. map_of (Sales_csv sample_bronze_unmatched) f \<noteq> None"
    using a by (auto simp: sales_files_def)
  with process_sales_data_files [of sample_bronze_unmatched]
  have c: "process_sales_data sample_bronze_unmatched \<noteq> Inr None"
    by blast
  have d: "process_sales_data sample_bronze_unmatched = Inr (Some sample_sales_unmatched)"
    by code_simp
  have "\<forall>f \<in> set sales_files. map_of (Sales_csv sample_bronze_no_sales) f = None"
    by (simp add: sales_files_def sample_bronze_no_sales_def)
  with process_sales_data_files [of sample_bronze_no_sales]
  have e: "process_sales_data sample_bronze_no_sales = Inr None"
    by blast
  have "length sample_sales_unmatched = 3" by (simp add: sample_sales_unmatched_def)
  with a b c d e show ?thesis by blast
qed

text \<open>
  Claim C4 as stated says that the loader fails when no yearly file exists. With no file
  of the three names in the directory it returns \<open>None\<close> instead.
\<close>

theorem process_sales_data_no_files_counterexample:
  "map_of (Sales_csv sample_bronze_no_sales) ''AdventureWorks_Sales_2015.csv'' = None \<and>
   map_of (Sales_csv sample_bronze_no_sales) ''AdventureWorks_Sales_2016.csv'' = None \<and>
   map_of (Sales_csv sample_bronze_no_sales) ''AdventureWorks_Sales_2017.csv'' = None \<and>
   process_sales_data sample_bronze_no_sales = Inr None"
  by (simp add: sample_bronze_no_sales_def process_sales_data_def sales_files_def
      List.map_filter_simps)


subsection \<open>The customer segments\<close>











end
